theory Spec2Isabelle
  imports Complex_Main "HOL-Library.Word" "HOL-Library.Mapping"
begin

section \<open>The binding layer of \<^verbatim>\<open>src/bindings/vvisf_bindings.cpp\<close>\<close>

text \<open>
  The file defines three classes (\<^verbatim>\<open>ValidationResult\<close>, \<^verbatim>\<open>ImageData\<close>, \<^verbatim>\<open>VVISFEngine\<close>)
  and exposes them to Python. Each class is a record here; each method of the engine is a
  function from the engine (the object \<^verbatim>\<open>this\<close>) and the arguments to a pair of the
  outcome and the engine after the call. The outcome is a sum: \<open>Inl\<close> carries the C++
  exception that leaves the method, \<open>Inr\<close> the value returned.

  Platform facts the model fixes: \<^verbatim>\<open>int\<close> has 32 bits, \<^verbatim>\<open>size_t\<close> and \<^verbatim>\<open>uintptr_t\<close> have 64.
  Signed overflow of \<^verbatim>\<open>int\<close> is undefined in C++; the model gives it the two's complement
  wrap-around of the usual targets. Only \<^verbatim>\<open>width * height * 4\<close> in \<^verbatim>\<open>ImageData\<close> and
  \<^verbatim>\<open>render_shader\<close> can overflow, and only what \<^verbatim>\<open>render_shader\<close> returns or throws
  at such sizes rests on that choice; no method assigns a member of the engine.
  Memory exhaustion (\<^verbatim>\<open>std::bad_alloc\<close>) is not modelled.
\<close>

subsection \<open>Values\<close>

type_synonym c_int = "32 word"
type_synonym uint8_t = "8 word"
type_synonym uintptr_t = "64 word"

text \<open>
  \<^verbatim>\<open>size_t\<close> values are natural numbers below \<open>2 ^ 64\<close>. Converting an \<^verbatim>\<open>int\<close> to
  \<^verbatim>\<open>size_t\<close> reads it as signed and reduces it modulo \<open>2 ^ 64\<close>.
\<close>

definition to_size_t :: "c_int \<Rightarrow> nat" where
  "to_size_t n = nat (sint n mod 2 ^ 64)"

text \<open>
  A \<^verbatim>\<open>py::object\<close> is a reference to a Python value. The file builds a float and a tuple
  of two integers and passes every other object through untouched. The only float it
  builds is the literal \<^verbatim>\<open>0.0\<close>, and no floating-point operation is applied to it.
\<close>

datatype py_object =
    py_none
  | py_bool bool
  | py_int int
  | py_float real
  | py_str string
  | py_tuple "py_object list"

definition make_tuple :: "c_int \<Rightarrow> c_int \<Rightarrow> py_object" where
  "make_tuple a b = py_tuple [py_int (sint a), py_int (sint b)]"

subsection \<open>Exceptions\<close>

text \<open>
  Both exception classes that occur derive from \<^verbatim>\<open>std::exception\<close>, so every handler of
  the file (\<^verbatim>\<open>catch (const std::exception& e)\<close>) catches both. Each carries the text
  that \<^verbatim>\<open>what()\<close> returns.
\<close>

datatype exn = runtime_error string | length_error string

fun what :: "exn \<Rightarrow> string" where
  "what (runtime_error m) = m"
| "what (length_error m) = m"

definition try_catch :: "exn + 'a \<Rightarrow> (exn \<Rightarrow> exn + 'a) \<Rightarrow> exn + 'a" where
  "try_catch body handler = (case body of Inr v \<Rightarrow> Inr v | Inl ex \<Rightarrow> handler ex)"

subsection \<open>The operations of \<^verbatim>\<open>std::vector<uint8_t>\<close> and \<^verbatim>\<open>std::to_string\<close> that the file calls\<close>

text \<open>
  A vector of bytes cannot hold more than \<^verbatim>\<open>PTRDIFF_MAX\<close> elements; asking for more raises
  \<^verbatim>\<open>std::length_error\<close>. The standard leaves the text of that exception to the library;
  the two texts below are the ones of libstdc++.
\<close>

definition vector_max_size :: nat where
  "vector_max_size = 2 ^ 63 - 1"

definition resize_what :: string where
  "resize_what = ''vector::_M_default_append''"

definition create_what :: string where
  "create_what = ''cannot create std::vector larger than max_size()''"

definition vector_resize :: "uint8_t list \<Rightarrow> nat \<Rightarrow> exn + uint8_t list" where
  "vector_resize v n =
     (if n \<le> length v then Inr (take n v)
      else if vector_max_size < n then Inl (length_error resize_what)
      else Inr (v @ replicate (n - length v) 0))"

definition vector_fill :: "nat \<Rightarrow> uint8_t \<Rightarrow> exn + uint8_t list" where
  "vector_fill n b =
     (if vector_max_size < n then Inl (length_error create_what)
      else Inr (replicate n b))"

definition digit_char :: "nat \<Rightarrow> char" where
  "digit_char d = char_of (48 + d)"

function to_string :: "nat \<Rightarrow> string" where
  "to_string n =
     (if n < 10 then [digit_char n]
      else to_string (n div 10) @ [digit_char (n mod 10)])"
  by pat_completeness auto
termination
  by (relation "measure id") auto

declare to_string.simps [simp del]

subsection \<open>\<^verbatim>\<open>ValidationResult\<close>\<close>

record ValidationResult =
  is_valid :: bool
  errors :: "string list"
  warnings :: "string list"
  metadata :: "(string, py_object) mapping"

text \<open>The default constructor: \<^verbatim>\<open>ValidationResult() : is_valid(false) {}\<close>.\<close>

definition ValidationResult_default :: ValidationResult where
  "ValidationResult_default =
     \<lparr>is_valid = False, errors = [], warnings = [], metadata = Mapping.empty\<rparr>"

text \<open>The constructor of three arguments.\<close>

definition ValidationResult_new :: "bool \<Rightarrow> string list \<Rightarrow> string list \<Rightarrow> ValidationResult" where
  "ValidationResult_new valid errs warns =
     \<lparr>is_valid = valid, errors = errs, warnings = warns, metadata = Mapping.empty\<rparr>"

subsection \<open>\<^verbatim>\<open>ImageData\<close>\<close>

record ImageData =
  width :: c_int
  height :: c_int
  data :: "uint8_t list"
  format :: string

definition ImageData_default :: ImageData where
  "ImageData_default = \<lparr>width = 0, height = 0, data = [], format = ''RGBA''\<rparr>"

text \<open>
  \<^verbatim>\<open>ImageData(int w, int h, const std::string& fmt)\<close>: the fields are set, then
  \<^verbatim>\<open>data.resize(width * height * 4)\<close> runs. The product is computed in \<^verbatim>\<open>int\<close> and
  converted to \<^verbatim>\<open>size_t\<close>.
\<close>

definition ImageData_new :: "c_int \<Rightarrow> c_int \<Rightarrow> string \<Rightarrow> exn + ImageData" where
  "ImageData_new w h fmt =
     (case vector_resize [] (to_size_t (w * h * 4)) of
        Inl ex \<Rightarrow> Inl ex
      | Inr d \<Rightarrow> Inr \<lparr>width = w, height = h, data = d, format = fmt\<rparr>)"

definition get_bytes :: "ImageData \<Rightarrow> uint8_t list" where
  "get_bytes img = data img"

definition get_size :: "ImageData \<Rightarrow> c_int list" where
  "get_size img = [width img, height img]"

subsection \<open>\<^verbatim>\<open>VVISFEngine\<close>\<close>

text \<open>
  The two private members \<^verbatim>\<open>last_error_\<close> and \<^verbatim>\<open>is_initialized_\<close> are the whole state of an
  engine. (A name cannot end in an underscore here, hence the suffix.)
\<close>

record VVISFEngine =
  last_error_m :: string
  is_initialized_m :: bool

text \<open>
  The constructor starts from \<^verbatim>\<open>is_initialized_(false)\<close> and a default (empty)
  \<^verbatim>\<open>last_error_\<close>; the body of its \<^verbatim>\<open>try\<close> block is the single assignment
  \<^verbatim>\<open>is_initialized_ = true\<close>, which cannot throw, so the handler never runs.
\<close>

definition VVISFEngine_new :: VVISFEngine where
  "VVISFEngine_new =
     (let e0 = \<lparr>last_error_m = [], is_initialized_m = False\<rparr>
      in e0\<lparr>is_initialized_m := True\<rparr>)"

definition not_initialized :: "VVISFEngine \<Rightarrow> exn" where
  "not_initialized e = runtime_error (''VVISFEngine not initialized: '' @ last_error_m e)"

definition validate_isf ::
  "VVISFEngine \<Rightarrow> string \<Rightarrow> (exn + ValidationResult) \<times> VVISFEngine" where
  "validate_isf e isf_json =
     (if \<not> is_initialized_m e then (Inl (not_initialized e), e)
      else
        (try_catch
           (Inr (ValidationResult_default
                   \<lparr>is_valid := True, errors := [], warnings := [],
                    metadata := Mapping.empty\<rparr>))
           (\<lambda>ex. Inr (ValidationResult_default
                   \<lparr>is_valid := False, errors := [what ex], warnings := [],
                    metadata := Mapping.empty\<rparr>)),
         e))"

definition render_shader ::
  "VVISFEngine \<Rightarrow> string \<Rightarrow> c_int \<Rightarrow> c_int \<Rightarrow> (string, py_object) mapping
     \<Rightarrow> (exn + ImageData) \<times> VVISFEngine" where
  "render_shader e isf_json w h parameters =
     (if \<not> is_initialized_m e then (Inl (not_initialized e), e)
      else
        (try_catch
           (case ImageData_new w h ''RGBA'' of
              Inl ex \<Rightarrow> Inl ex
            | Inr img \<Rightarrow>
                (case vector_fill (to_size_t (w * h * 4)) 255 of
                   Inl ex \<Rightarrow> Inl ex
                 | Inr d \<Rightarrow> Inr (img\<lparr>data := d\<rparr>)))
           (\<lambda>ex. Inl (runtime_error (''Shader rendering failed: '' @ what ex))),
         e))"

text \<open>
  \<^verbatim>\<open>create_texture\<close> builds its result from the address of its argument \<^verbatim>\<open>data\<close>; the
  address is the extra argument \<open>data_addr\<close>.
\<close>

definition create_texture ::
  "VVISFEngine \<Rightarrow> uintptr_t \<Rightarrow> uint8_t list \<Rightarrow> c_int \<Rightarrow> c_int \<Rightarrow> string
     \<Rightarrow> (exn + string) \<times> VVISFEngine" where
  "create_texture e data_addr dat w h fmt =
     (if \<not> is_initialized_m e then (Inl (not_initialized e), e)
      else
        (try_catch
           (Inr (''texture_'' @ to_string (unat data_addr)))
           (\<lambda>ex. Inl (runtime_error (''Texture creation failed: '' @ what ex))),
         e))"

definition destroy_texture ::
  "VVISFEngine \<Rightarrow> string \<Rightarrow> (exn + unit) \<times> VVISFEngine" where
  "destroy_texture e texture_id =
     (if \<not> is_initialized_m e then (Inl (not_initialized e), e)
      else
        (try_catch
           (Inr ())
           (\<lambda>ex. Inl (runtime_error (''Texture destruction failed: '' @ what ex))),
         e))"

definition get_parameters ::
  "VVISFEngine \<Rightarrow> string \<Rightarrow> (exn + (string, py_object) mapping) \<times> VVISFEngine" where
  "get_parameters e isf_json =
     (if \<not> is_initialized_m e then (Inl (not_initialized e), e)
      else
        (try_catch
           (let params = Mapping.empty;
                params = Mapping.update ''time'' (py_float 0.0) params;
                params = Mapping.update ''resolution'' (make_tuple 512 512) params
            in Inr params)
           (\<lambda>ex. Inl (runtime_error (''Parameter extraction failed: '' @ what ex))),
         e))"

definition set_parameter ::
  "VVISFEngine \<Rightarrow> string \<Rightarrow> string \<Rightarrow> py_object \<Rightarrow> (exn + unit) \<times> VVISFEngine" where
  "set_parameter e isf_json param_name v =
     (if \<not> is_initialized_m e then (Inl (not_initialized e), e)
      else
        (try_catch
           (Inr ())
           (\<lambda>ex. Inl (runtime_error (''Parameter setting failed: '' @ what ex))),
         e))"

definition get_last_error :: "VVISFEngine \<Rightarrow> string" where
  "get_last_error e = last_error_m e"

definition is_initialized :: "VVISFEngine \<Rightarrow> bool" where
  "is_initialized e = is_initialized_m e"

definition reset_errors :: "VVISFEngine \<Rightarrow> VVISFEngine" where
  "reset_errors e = e\<lparr>last_error_m := []\<rparr>"

text \<open>The module-level functions.\<close>

definition create_engine :: VVISFEngine where
  "create_engine = VVISFEngine_new"

definition get_version :: string where
  "get_version = ''1.0.0''"

text \<open>
  The engines a host can hold are the one the constructor builds and every engine that a
  sequence of calls of the public methods leaves behind. A call is a method with its
  arguments; \<open>after_call\<close> is the engine it leaves, \<open>after_calls\<close> runs a sequence.
  \<^verbatim>\<open>get_last_error\<close> and \<^verbatim>\<open>is_initialized\<close> are \<^verbatim>\<open>const\<close> methods.
\<close>

datatype method_call =
    ValidateIsf string
  | RenderShader string c_int c_int "(string, py_object) mapping"
  | CreateTexture uintptr_t "uint8_t list" c_int c_int string
  | DestroyTexture string
  | GetParameters string
  | SetParameter string string py_object
  | GetLastError
  | IsInitialized
  | ResetErrors

fun after_call :: "VVISFEngine \<Rightarrow> method_call \<Rightarrow> VVISFEngine" where
  "after_call e (ValidateIsf s) = snd (validate_isf e s)"
| "after_call e (RenderShader s w h ps) = snd (render_shader e s w h ps)"
| "after_call e (CreateTexture a d w h f) = snd (create_texture e a d w h f)"
| "after_call e (DestroyTexture t) = snd (destroy_texture e t)"
| "after_call e (GetParameters s) = snd (get_parameters e s)"
| "after_call e (SetParameter s n v) = snd (set_parameter e s n v)"
| "after_call e GetLastError = e"
| "after_call e IsInitialized = e"
| "after_call e ResetErrors = reset_errors e"

fun after_calls :: "VVISFEngine \<Rightarrow> method_call list \<Rightarrow> VVISFEngine" where
  "after_calls e [] = e"
| "after_calls e (c # cs) = after_calls (after_call e c) cs"

subsection \<open>Example documents\<close>

text \<open>
  ISF source texts used as concrete inputs below: a JSON header inside a comment,
  followed by the shader body. \<open>quoted\<close> wraps a word in double quotes.
\<close>

definition quoted :: "string \<Rightarrow> string" where
  "quoted s = CHR 0x22 # s @ [CHR 0x22]"

definition input_decl :: "string \<Rightarrow> string \<Rightarrow> string" where
  "input_decl nm ty =
     ''{ '' @ quoted ''NAME'' @ '': '' @ quoted nm @ '', ''
       @ quoted ''TYPE'' @ '': '' @ quoted ty @ '' }''"

text \<open>A header that stops in the middle of its \<^verbatim>\<open>INPUTS\<close> array: not JSON, not ISF.\<close>

definition truncated_isf :: string where
  "truncated_isf = ''/*{ '' @ quoted ''INPUTS'' @ '': [ ''"

text \<open>A document that declares the input \<^verbatim>\<open>level\<close> twice.\<close>

definition duplicate_input_isf :: string where
  "duplicate_input_isf =
     ''/*{ '' @ quoted ''INPUTS'' @ '': [ '' @ input_decl ''level'' ''float'' @ '', ''
       @ input_decl ''level'' ''float'' @ '' ] }*/ ''
       @ ''void main() { gl_FragColor = vec4(level); }''"

text \<open>A document with one pass and no inputs whose shader writes the colour (1,0,0,1).\<close>

definition red_isf :: string where
  "red_isf =
     ''/*{ '' @ quoted ''INPUTS'' @ '': [], '' @ quoted ''PASSES'' @ '': [ {} ] }*/ ''
       @ ''void main() { gl_FragColor = vec4(1.0, 0.0, 0.0, 1.0); }''"

section \<open>Helper facts\<close>

lemma try_catch_Inr: "try_catch (Inr v) handler = Inr v"
  by (simp add: try_catch_def)

lemma try_catch_Inl: "try_catch (Inl ex) handler = handler ex"
  by (simp add: try_catch_def)

text \<open>No method assigns a member: the engine after a call is the engine before it.\<close>

lemma snd_validate_isf: "snd (validate_isf e s) = e"
  by (simp add: validate_isf_def)

lemma snd_render_shader: "snd (render_shader e s w h ps) = e"
  by (simp add: render_shader_def)

lemma snd_create_texture: "snd (create_texture e a d w h f) = e"
  by (simp add: create_texture_def)

lemma snd_destroy_texture: "snd (destroy_texture e t) = e"
  by (simp add: destroy_texture_def)

lemma snd_get_parameters: "snd (get_parameters e s) = e"
  by (simp add: get_parameters_def)

lemma snd_set_parameter: "snd (set_parameter e s n v) = e"
  by (simp add: set_parameter_def)

text \<open>What each method returns once the guard is passed.\<close>

lemma fst_validate_isf:
  "is_initialized_m e \<Longrightarrow>
   fst (validate_isf e s) =
     Inr \<lparr>is_valid = True, errors = [], warnings = [], metadata = Mapping.empty\<rparr>"
  by (simp add: validate_isf_def try_catch_Inr ValidationResult_default_def)

lemma fst_create_texture:
  "is_initialized_m e \<Longrightarrow>
   fst (create_texture e a d w h f) = Inr (''texture_'' @ to_string (unat a))"
  by (simp add: create_texture_def try_catch_Inr)

lemma fst_destroy_texture: "is_initialized_m e \<Longrightarrow> fst (destroy_texture e t) = Inr ()"
  by (simp add: destroy_texture_def try_catch_Inr)

lemma fst_set_parameter: "is_initialized_m e \<Longrightarrow> fst (set_parameter e s n v) = Inr ()"
  by (simp add: set_parameter_def try_catch_Inr)

lemma fst_get_parameters:
  "is_initialized_m e \<Longrightarrow>
   fst (get_parameters e s) =
     Inr (Mapping.update ''resolution'' (py_tuple [py_int 512, py_int 512])
           (Mapping.update ''time'' (py_float 0) Mapping.empty))"
  by (simp add: get_parameters_def try_catch_Inr make_tuple_def)

lemma render_shader_cases:
  "is_initialized_m e \<Longrightarrow>
   (\<exists>img. fst (render_shader e s w h ps) = Inr img) \<or>
   (\<exists>ex. fst (render_shader e s w h ps) =
      Inl (runtime_error (''Shader rendering failed: '' @ what ex)))"
  by (auto simp add: render_shader_def try_catch_def split: sum.splits)

lemma new_engine_fields:
  "is_initialized_m VVISFEngine_new" "last_error_m VVISFEngine_new = []"
  by (simp_all add: VVISFEngine_new_def)

lemma after_call_invariant:
  "is_initialized_m e \<and> last_error_m e = [] \<Longrightarrow>
   is_initialized_m (after_call e c) \<and> last_error_m (after_call e c) = []"
  by (cases c)
    (simp_all add: snd_validate_isf snd_render_shader snd_create_texture
      snd_destroy_texture snd_get_parameters snd_set_parameter reset_errors_def)

lemma after_calls_invariant:
  "is_initialized_m e \<and> last_error_m e = [] \<Longrightarrow>
   is_initialized_m (after_calls e cs) \<and> last_error_m (after_calls e cs) = []"
proof (induction cs arbitrary: e)
  case Nil
  then show ?case by simp
next
  case (Cons c cs)
  from Cons.prems have "is_initialized_m (after_call e c) \<and> last_error_m (after_call e c) = []"
    by (rule after_call_invariant)
  then show ?case
    by (simp add: Cons.IH)
qed

lemma engine_invariant:
  "is_initialized_m (after_calls VVISFEngine_new cs)"
  "last_error_m (after_calls VVISFEngine_new cs) = []"
  using after_calls_invariant [of VVISFEngine_new cs] by (simp_all add: new_engine_fields)

text \<open>The byte count \<^verbatim>\<open>width * height * 4\<close> when it fits an \<^verbatim>\<open>int\<close>.\<close>

lemma sint_byte_count:
  fixes w h :: c_int
  assumes "0 < sint w" "0 < sint h" "sint w * sint h * 4 \<le> 2147483647"
  shows "sint (w * h * 4) = sint w * sint h * 4"
proof -
  define p where "p = sint w * sint h"
  have p_pos: "0 < p"
    unfolding p_def using assms(1,2) by (rule mult_pos_pos)
  have p4: "p * 4 \<le> 2147483647"
    using assms(3) by (simp add: p_def)
  have "sint (w * h) = signed_take_bit 31 p"
    by (simp add: sint_word_ariths p_def)
  also have "\<dots> = p"
    using p_pos p4 by (intro signed_take_bit_int_eq_self) simp_all
  finally have wh: "sint (w * h) = p" .
  have "sint (w * h * 4) = signed_take_bit 31 (sint (w * h) * sint (4 :: c_int))"
    by (simp add: sint_word_ariths)
  also have "\<dots> = signed_take_bit 31 (p * 4)"
    by (simp add: wh)
  also have "\<dots> = p * 4"
    using p_pos p4 by (intro signed_take_bit_int_eq_self) simp_all
  finally show ?thesis by (simp add: p_def)
qed

lemma to_size_t_nonneg: "0 \<le> sint n \<Longrightarrow> to_size_t n = nat (sint n)"
proof -
  assume nn: "0 \<le> sint n"
  have "sint n < 2 ^ 31"
    using sint_lt [of n] by simp
  then have "sint n < 2 ^ 64"
    by simp
  with nn show ?thesis
    by (simp add: to_size_t_def)
qed

lemma to_size_t_small: "0 \<le> sint n \<Longrightarrow> \<not> vector_max_size < to_size_t n"
proof -
  assume nn: "0 \<le> sint n"
  have "sint n < 2 ^ 31"
    using sint_lt [of n] by simp
  then have "nat (sint n) < 2 ^ 31"
    using nn by (simp add: nat_less_iff)
  then show ?thesis
    by (simp add: to_size_t_nonneg [OF nn] vector_max_size_def)
qed

lemma render_shader_fits:
  assumes init: "is_initialized_m e"
    and pos: "0 < sint (w * h * 4)"
  shows "fst (render_shader e s w h ps) =
     Inr \<lparr>width = w, height = h, data = replicate (to_size_t (w * h * 4)) 255,
          format = ''RGBA''\<rparr>"
proof -
  have nn: "0 \<le> sint (w * h * 4)"
    using pos by simp
  have gt0: "0 < to_size_t (w * h * 4)"
    using pos by (simp add: to_size_t_nonneg [OF nn])
  have small: "\<not> vector_max_size < to_size_t (w * h * 4)"
    by (rule to_size_t_small [OF nn])
  have img: "ImageData_new w h ''RGBA'' =
     Inr \<lparr>width = w, height = h, data = replicate (to_size_t (w * h * 4)) 0,
          format = ''RGBA''\<rparr>"
    using gt0 small by (simp add: ImageData_new_def vector_resize_def)
  have fill: "vector_fill (to_size_t (w * h * 4)) 255 =
     Inr (replicate (to_size_t (w * h * 4)) 255)"
    using small by (simp add: vector_fill_def)
  show ?thesis
    using init by (simp add: render_shader_def img fill try_catch_Inr)
qed

lemma replicate4: "replicate 4 x = [x, x, x, x]"
  by (simp add: eval_nat_numeral)

lemma concat_replicate4: "concat (replicate n [x, x, x, x]) = replicate (4 * n) x"
proof (induction n)
  case 0
  show ?case by simp
next
  case (Suc n)
  have "replicate (4 * Suc n) x = replicate 4 x @ replicate (4 * n) x"
    by (simp add: replicate_add [symmetric])
  with Suc show ?case
    by (simp add: replicate4)
qed

lemma to_size_t_64: "to_size_t 64 = 64"
  by (simp add: to_size_t_def)

lemma to_size_t_0: "to_size_t 0 = 0"
  by (simp add: to_size_t_def)

lemma to_size_t_overflow: "to_size_t 2147483648 = 18446744071562067968"
  by (simp add: to_size_t_def)

lemma render_shader_4x4:
  "is_initialized_m e \<Longrightarrow>
   fst (render_shader e s 4 4 ps) =
     Inr \<lparr>width = 4, height = 4, data = replicate 64 255, format = ''RGBA''\<rparr>"
  using render_shader_fits [of e 4 4 s ps] by (simp add: to_size_t_64)

lemma engine_eqI:
  fixes e1 e2 :: VVISFEngine
  shows "last_error_m e1 = last_error_m e2 \<Longrightarrow> is_initialized_m e1 = is_initialized_m e2
    \<Longrightarrow> e1 = e2"
  by simp

section \<open>Validation\<close>

text \<open>
  C1. On an initialized engine \<^verbatim>\<open>validate_isf\<close> returns, for every input text, a result
  with \<open>is_valid = True\<close> and empty \<open>errors\<close> and \<open>warnings\<close>. Every text is covered, so
  in particular every well-formed document whose passes reference declared names only.
\<close>

theorem validate_isf_always_valid:
  "is_initialized e \<Longrightarrow>
   \<exists>r. fst (validate_isf e s) = Inr r \<and> is_valid r \<and> errors r = [] \<and> warnings r = []"
  by (simp add: is_initialized_def fst_validate_isf)

theorem validate_isf_always_valid_witness:
  "is_initialized create_engine \<and>
   (\<exists>r. fst (validate_isf create_engine red_isf) = Inr r \<and> is_valid r \<and> errors r = []
      \<and> warnings r = [])"
  using validate_isf_always_valid [of create_engine red_isf]
  by (simp add: is_initialized_def create_engine_def new_engine_fields)

text \<open>
  C3, as stated, asks for \<open>is_valid = False\<close> and a non-empty \<open>errors\<close> on malformed
  input. On the truncated header the engine answers \<open>is_valid = True\<close> with no error.
\<close>

theorem validate_isf_malformed_counterexample:
  "\<not> isl (fst (validate_isf create_engine truncated_isf)) \<and>
   is_valid (projr (fst (validate_isf create_engine truncated_isf))) \<and>
   errors (projr (fst (validate_isf create_engine truncated_isf))) = []"
  by (simp add: fst_validate_isf create_engine_def new_engine_fields)

text \<open>
  C3, amended. For every input text, malformed ones included, \<^verbatim>\<open>validate_isf\<close> does
  not throw, on the engine the constructor builds or on that engine after any sequence
  of method calls: it returns a \<^verbatim>\<open>ValidationResult\<close> with all four fields set, and that
  result has \<open>is_valid = True\<close> and empty \<open>errors\<close>, \<open>warnings\<close> and \<open>metadata\<close>.
\<close>

theorem validate_isf_never_throws:
  "fst (validate_isf (after_calls create_engine cs) s) =
     Inr \<lparr>is_valid = True, errors = [], warnings = [], metadata = Mapping.empty\<rparr>"
  by (simp add: create_engine_def engine_invariant fst_validate_isf)

theorem validate_isf_never_throws_witness:
  "fst (validate_isf (after_calls create_engine [ValidateIsf truncated_isf, ResetErrors])
          truncated_isf) =
     Inr \<lparr>is_valid = True, errors = [], warnings = [], metadata = Mapping.empty\<rparr>"
  using validate_isf_never_throws [of "[ValidateIsf truncated_isf, ResetErrors]" truncated_isf]
  by simp

text \<open>
  C4, as stated, asks for \<open>is_valid = False\<close> and an error naming the duplicate. On the
  document that declares \<^verbatim>\<open>level\<close> twice the engine answers \<open>is_valid = True\<close> with no
  error at all.
\<close>

theorem validate_isf_duplicate_counterexample:
  "\<not> isl (fst (validate_isf create_engine duplicate_input_isf)) \<and>
   is_valid (projr (fst (validate_isf create_engine duplicate_input_isf))) \<and>
   errors (projr (fst (validate_isf create_engine duplicate_input_isf))) = []"
  by (simp add: fst_validate_isf create_engine_def new_engine_fields)

text \<open>
  C4, amended. For every document text, one with a duplicated input name included,
  \<^verbatim>\<open>validate_isf\<close> on an initialized engine returns \<open>is_valid = True\<close> and an empty
  \<open>errors\<close> sequence: no member of \<open>errors\<close> identifies the duplicate.
\<close>

theorem validate_isf_reports_no_duplicate:
  "is_initialized e \<Longrightarrow>
   \<not> isl (fst (validate_isf e s)) \<and>
   is_valid (projr (fst (validate_isf e s))) \<and>
   set (errors (projr (fst (validate_isf e s)))) = {}"
  by (simp add: is_initialized_def fst_validate_isf)

theorem validate_isf_reports_no_duplicate_witness:
  "is_initialized create_engine \<and>
   \<not> isl (fst (validate_isf create_engine duplicate_input_isf)) \<and>
   is_valid (projr (fst (validate_isf create_engine duplicate_input_isf))) \<and>
   set (errors (projr (fst (validate_isf create_engine duplicate_input_isf)))) = {}"
  using validate_isf_reports_no_duplicate [of create_engine duplicate_input_isf]
  by (simp add: is_initialized_def create_engine_def new_engine_fields)

text \<open>
  C9. \<^verbatim>\<open>validate_isf\<close> is pure: on two engines in the same state (equal
  \<^verbatim>\<open>get_last_error\<close> and \<^verbatim>\<open>is_initialized\<close>) the same text gives equal outcomes, and
  each call leaves its engine as it was.
\<close>

theorem validate_isf_pure:
  assumes "get_last_error e1 = get_last_error e2"
    and "is_initialized e1 = is_initialized e2"
  shows "fst (validate_isf e1 s) = fst (validate_isf e2 s) \<and>
         snd (validate_isf e1 s) = e1 \<and> snd (validate_isf e2 s) = e2"
proof -
  have "e1 = e2"
    using assms by (intro engine_eqI) (simp_all add: get_last_error_def is_initialized_def)
  then show ?thesis
    by (simp add: snd_validate_isf)
qed

theorem validate_isf_pure_witness:
  "get_last_error create_engine = get_last_error (reset_errors create_engine) \<and>
   is_initialized create_engine = is_initialized (reset_errors create_engine) \<and>
   fst (validate_isf create_engine red_isf) =
     fst (validate_isf (reset_errors create_engine) red_isf) \<and>
   snd (validate_isf create_engine red_isf) = create_engine \<and>
   snd (validate_isf (reset_errors create_engine) red_isf) = reset_errors create_engine"
proof -
  have a: "get_last_error create_engine = get_last_error (reset_errors create_engine)"
    by (simp add: get_last_error_def reset_errors_def create_engine_def new_engine_fields)
  have b: "is_initialized create_engine = is_initialized (reset_errors create_engine)"
    by (simp add: is_initialized_def reset_errors_def)
  show ?thesis
    using a b validate_isf_pure [OF a b, of red_isf] by simp
qed

section \<open>Rendering\<close>

text \<open>
  C2. The code sets out to return \<^verbatim>\<open>width * height * 4\<close> bytes of 255 for every positive
  width and height, but computes that count in \<^verbatim>\<open>int\<close> before it becomes a \<^verbatim>\<open>size_t\<close>, and
  the product of two positive \<^verbatim>\<open>int\<close>s need not fit an \<^verbatim>\<open>int\<close>. Evaluated on a new engine:
  at 32768 by 16384 the count \<open>2 ^ 31\<close> wraps to a negative \<^verbatim>\<open>int\<close>, the \<^verbatim>\<open>size_t\<close> made of
  it exceeds what a vector holds and \<^verbatim>\<open>render_shader\<close> throws; at 65536 by 65536 the count
  wraps to 0 and the image returned has the two fields 65536 and no data at all.
\<close>

theorem render_shader_overflow:
  "0 < sint (32768 :: c_int) \<and> 0 < sint (16384 :: c_int) \<and>
   isl (fst (render_shader create_engine red_isf 32768 16384 Mapping.empty)) \<and>
   0 < sint (65536 :: c_int) \<and>
   fst (render_shader create_engine red_isf 65536 65536 Mapping.empty) =
     Inr \<lparr>width = 65536, height = 65536, data = [], format = ''RGBA''\<rparr>"
proof -
  have thrown: "isl (fst (render_shader create_engine red_isf 32768 16384 Mapping.empty))"
    by (simp add: render_shader_def create_engine_def new_engine_fields try_catch_def
        ImageData_new_def vector_resize_def to_size_t_overflow vector_max_size_def)
  have wrap: "(65536 :: c_int) * 65536 * 4 = 0"
    by simp
  have empty: "fst (render_shader create_engine red_isf 65536 65536 Mapping.empty) =
     Inr \<lparr>width = 65536, height = 65536, data = [], format = ''RGBA''\<rparr>"
    unfolding render_shader_def ImageData_new_def wrap
    by (simp add: create_engine_def new_engine_fields try_catch_def
        vector_resize_def vector_fill_def to_size_t_0 vector_max_size_def)
  show ?thesis
    using thrown empty by simp
qed

text \<open>
  Where the count does fit an \<^verbatim>\<open>int\<close>, the image is the one intended: for positive width
  and height with \<^verbatim>\<open>width * height * 4\<close> at most 2147483647, \<^verbatim>\<open>render_shader\<close> on an
  initialized engine returns an image with the \<open>width\<close> and \<open>height\<close> given, the \<open>format\<close>
  \<^verbatim>\<open>RGBA\<close> and exactly \<^verbatim>\<open>width * height * 4\<close> bytes of \<open>data\<close>, each 255.
\<close>

theorem render_shader_white:
  assumes "is_initialized e"
    and "0 < sint w" and "0 < sint h"
    and "sint w * sint h * 4 \<le> 2147483647"
  shows "fst (render_shader e s w h ps) =
     Inr \<lparr>width = w, height = h, data = replicate (nat (sint w * sint h * 4)) 255,
          format = ''RGBA''\<rparr>"
proof -
  have count: "sint (w * h * 4) = sint w * sint h * 4"
    using assms(2-4) by (rule sint_byte_count)
  have "0 < sint w * sint h"
    using assms(2,3) by (rule mult_pos_pos)
  then have pos: "0 < sint (w * h * 4)"
    by (simp add: count)
  then have "to_size_t (w * h * 4) = nat (sint w * sint h * 4)"
    by (simp add: to_size_t_nonneg count)
  moreover have "is_initialized_m e"
    using assms(1) by (simp add: is_initialized_def)
  ultimately show ?thesis
    using render_shader_fits [OF _ pos, of e s ps] by simp
qed

theorem render_shader_white_witness:
  "is_initialized create_engine \<and> 0 < sint (640 :: c_int) \<and> 0 < sint (480 :: c_int) \<and>
   sint (640 :: c_int) * sint (480 :: c_int) * 4 \<le> 2147483647 \<and>
   fst (render_shader create_engine red_isf 640 480 Mapping.empty) =
     Inr \<lparr>width = 640, height = 480, data = replicate 1228800 255, format = ''RGBA''\<rparr>"
proof -
  have a: "is_initialized create_engine"
    by (simp add: is_initialized_def create_engine_def new_engine_fields)
  have b: "0 < sint (640 :: c_int)" and c: "0 < sint (480 :: c_int)"
    by simp_all
  have d: "sint (640 :: c_int) * sint (480 :: c_int) * 4 \<le> 2147483647"
    by simp
  show ?thesis
    using a render_shader_white [OF a b c d, of red_isf Mapping.empty] by simp
qed

text \<open>
  C5, as stated, asks for sixteen red pixels. The first pixel of the 4 by 4 image the
  engine returns for the red shader is white, not \<open>[255, 0, 0, 255]\<close>.
\<close>

theorem render_shader_red_counterexample:
  "\<not> isl (fst (render_shader create_engine red_isf 4 4 Mapping.empty)) \<and>
   take 4 (data (projr (fst (render_shader create_engine red_isf 4 4 Mapping.empty))))
     = [255, 255, 255, 255] \<and>
   data (projr (fst (render_shader create_engine red_isf 4 4 Mapping.empty)))
     \<noteq> concat (replicate 16 [255, 0, 0, 255])"
proof -
  have r: "fst (render_shader create_engine red_isf 4 4 Mapping.empty) =
     Inr \<lparr>width = 4, height = 4, data = replicate 64 255, format = ''RGBA''\<rparr>"
    by (rule render_shader_4x4) (simp add: create_engine_def new_engine_fields)
  have t: "take 4 (replicate 64 (255 :: uint8_t)) = [255, 255, 255, 255]"
    by (simp add: replicate4)
  have t': "take 4 (concat (replicate 16 [255, 0, 0, 255 :: uint8_t])) = [255, 0, 0, 255]"
    by (simp add: eval_nat_numeral)
  have ne: "replicate 64 (255 :: uint8_t) \<noteq> concat (replicate 16 [255, 0, 0, 255])"
  proof
    assume eq: "replicate 64 (255 :: uint8_t) = concat (replicate 16 [255, 0, 0, 255])"
    have "take 4 (replicate 64 (255 :: uint8_t)) =
        take 4 (concat (replicate 16 [255, 0, 0, 255]))"
      by (simp only: eq)
    then have "[255, 255, 255, 255] = [255, 0, 0, 255 :: uint8_t]"
      by (simp only: t t')
    then show False
      by simp
  qed
  show ?thesis
    using t ne by (simp add: r)
qed

text \<open>
  C5, amended. For the document with one pass, no inputs and the constant colour
  (1,0,0,1), as for every other text, rendering at width 4 and height 4 on an initialized
  engine returns a 4 by 4 image of 4 * 4 * 4 = 64 bytes in which every pixel is
  \<open>[255, 255, 255, 255]\<close>.
\<close>

theorem render_shader_4x4_white:
  "is_initialized e \<Longrightarrow>
   fst (render_shader e s 4 4 ps) =
     Inr \<lparr>width = 4, height = 4, data = concat (replicate 16 [255, 255, 255, 255]),
          format = ''RGBA''\<rparr>"
  by (simp add: is_initialized_def render_shader_4x4 concat_replicate4)

theorem render_shader_4x4_white_witness:
  "is_initialized create_engine \<and>
   fst (render_shader create_engine red_isf 4 4 Mapping.empty) =
     Inr \<lparr>width = 4, height = 4, data = concat (replicate 16 [255, 255, 255, 255]),
          format = ''RGBA''\<rparr>"
proof -
  have a: "is_initialized create_engine"
    by (simp add: is_initialized_def create_engine_def new_engine_fields)
  show ?thesis
    using a render_shader_4x4_white [OF a, of red_isf Mapping.empty] by simp
qed

section \<open>Textures\<close>

text \<open>
  C8. On an initialized engine \<^verbatim>\<open>create_texture\<close> and \<^verbatim>\<open>destroy_texture\<close>, whatever
  their arguments, leave the engine as it was: \<^verbatim>\<open>get_last_error\<close> and \<^verbatim>\<open>is_initialized\<close>
  answer as before. The two members are the whole engine (it has no texture table), so
  nothing else can have been created or removed.
\<close>

theorem texture_calls_keep_engine:
  assumes "is_initialized e"
  shows "snd (create_texture e a d w h f) = e \<and>
         get_last_error (snd (create_texture e a d w h f)) = get_last_error e \<and>
         is_initialized (snd (create_texture e a d w h f)) = is_initialized e \<and>
         snd (destroy_texture e t) = e \<and>
         get_last_error (snd (destroy_texture e t)) = get_last_error e \<and>
         is_initialized (snd (destroy_texture e t)) = is_initialized e"
  by (simp add: snd_create_texture snd_destroy_texture)

theorem texture_calls_keep_engine_witness:
  "is_initialized create_engine \<and>
   snd (create_texture create_engine 4096 [1, 2, 3, 4] 1 1 ''RGBA'') = create_engine \<and>
   get_last_error (snd (create_texture create_engine 4096 [1, 2, 3, 4] 1 1 ''RGBA''))
     = get_last_error create_engine \<and>
   is_initialized (snd (create_texture create_engine 4096 [1, 2, 3, 4] 1 1 ''RGBA''))
     = is_initialized create_engine \<and>
   snd (destroy_texture create_engine ''texture_4096'') = create_engine \<and>
   get_last_error (snd (destroy_texture create_engine ''texture_4096''))
     = get_last_error create_engine \<and>
   is_initialized (snd (destroy_texture create_engine ''texture_4096''))
     = is_initialized create_engine"
proof -
  have a: "is_initialized create_engine"
    by (simp add: is_initialized_def create_engine_def new_engine_fields)
  show ?thesis
    using a texture_calls_keep_engine
      [OF a, of 4096 "[1, 2, 3, 4]" 1 1 "''RGBA''" "''texture_4096''"]
    by simp
qed

text \<open>
  C6, as stated, asks the second \<^verbatim>\<open>destroy_texture\<close> of one id to fail with
  \<^verbatim>\<open>ResourceError::NotFound\<close>. The second call on a new engine returns normally.
\<close>

theorem destroy_texture_twice_counterexample:
  "fst (destroy_texture (snd (destroy_texture create_engine ''texture_4096''))
     ''texture_4096'') = Inr ()"
  by (simp add: snd_destroy_texture fst_destroy_texture create_engine_def new_engine_fields)

text \<open>
  C6, amended. Calling \<^verbatim>\<open>destroy_texture\<close> twice with the same texture id on an
  initialized engine never crashes: the first call returns normally and so does the
  second (no error is raised), and the engine is left as it was.
\<close>

theorem destroy_texture_twice:
  assumes "is_initialized e"
  shows "fst (destroy_texture e t) = Inr () \<and>
         fst (destroy_texture (snd (destroy_texture e t)) t) = Inr () \<and>
         snd (destroy_texture (snd (destroy_texture e t)) t) = e"
  using assms by (simp add: is_initialized_def snd_destroy_texture fst_destroy_texture)

theorem destroy_texture_twice_witness:
  "is_initialized (reset_errors create_engine) \<and>
   fst (destroy_texture (reset_errors create_engine) ''texture_1'') = Inr () \<and>
   fst (destroy_texture (snd (destroy_texture (reset_errors create_engine) ''texture_1''))
     ''texture_1'') = Inr () \<and>
   snd (destroy_texture (snd (destroy_texture (reset_errors create_engine) ''texture_1''))
     ''texture_1'') = reset_errors create_engine"
proof -
  have a: "is_initialized (reset_errors create_engine)"
    by (simp add: is_initialized_def reset_errors_def create_engine_def new_engine_fields)
  show ?thesis
    using a destroy_texture_twice [OF a, of "''texture_1''"] by simp
qed

section \<open>Parameters\<close>

text \<open>
  C7. On an initialized engine \<^verbatim>\<open>get_parameters\<close> returns, for every text, a mapping of
  exactly two entries: \<^verbatim>\<open>time\<close> is the float 0.0 and \<^verbatim>\<open>resolution\<close> the tuple (512, 512).
  The text plays no part: any two texts give the same mapping.
\<close>

theorem get_parameters_placeholder:
  assumes "is_initialized e"
  shows "\<exists>m. fst (get_parameters e s) = Inr m \<and>
           Mapping.keys m = {''time'', ''resolution''} \<and>
           Mapping.lookup m ''time'' = Some (py_float 0) \<and>
           Mapping.lookup m ''resolution'' = Some (py_tuple [py_int 512, py_int 512]) \<and>
           fst (get_parameters e s') = Inr m"
proof -
  have init: "is_initialized_m e"
    using assms by (simp add: is_initialized_def)
  define m where "m = Mapping.update ''resolution'' (py_tuple [py_int 512, py_int 512])
           (Mapping.update ''time'' (py_float 0) Mapping.empty)"
  have "fst (get_parameters e s) = Inr m" and "fst (get_parameters e s') = Inr m"
    by (simp_all add: fst_get_parameters [OF init] m_def)
  moreover have "Mapping.keys m = {''time'', ''resolution''}"
    by (auto simp add: m_def)
  moreover have "Mapping.lookup m ''time'' = Some (py_float 0)"
    by (simp add: m_def lookup_update')
  moreover have "Mapping.lookup m ''resolution'' = Some (py_tuple [py_int 512, py_int 512])"
    by (simp add: m_def lookup_update')
  ultimately show ?thesis
    by blast
qed

theorem get_parameters_placeholder_witness:
  "is_initialized create_engine \<and>
   (\<exists>m. fst (get_parameters create_engine red_isf) = Inr m \<and>
      Mapping.keys m = {''time'', ''resolution''} \<and>
      Mapping.lookup m ''time'' = Some (py_float 0) \<and>
      Mapping.lookup m ''resolution'' = Some (py_tuple [py_int 512, py_int 512]) \<and>
      fst (get_parameters create_engine duplicate_input_isf) = Inr m)"
proof -
  have a: "is_initialized create_engine"
    by (simp add: is_initialized_def create_engine_def new_engine_fields)
  show ?thesis
    using a get_parameters_placeholder [OF a, of red_isf duplicate_input_isf] by simp
qed

section \<open>The initialization guard\<close>

text \<open>
  C10. The engine the default constructor builds (\<^verbatim>\<open>create_engine\<close> returns such an
  engine) answers \<open>True\<close> to \<^verbatim>\<open>is_initialized\<close> and the empty string to
  \<^verbatim>\<open>get_last_error\<close>, and so does that engine after any sequence of method calls. Hence
  none of \<^verbatim>\<open>validate_isf\<close>, \<^verbatim>\<open>render_shader\<close>, \<^verbatim>\<open>create_texture\<close>,
  \<^verbatim>\<open>destroy_texture\<close>, \<^verbatim>\<open>get_parameters\<close> and \<^verbatim>\<open>set_parameter\<close> ever takes its
  "not initialized" branch on it.
\<close>

theorem not_initialized_unreachable:
  "create_engine = VVISFEngine_new \<and>
   is_initialized VVISFEngine_new \<and> get_last_error VVISFEngine_new = [] \<and>
   (let e = after_calls VVISFEngine_new cs in
      is_initialized e \<and> get_last_error e = [] \<and>
      fst (validate_isf e s) \<noteq> Inl (not_initialized e) \<and>
      fst (render_shader e s w h ps) \<noteq> Inl (not_initialized e) \<and>
      fst (create_texture e a d w' h' f) \<noteq> Inl (not_initialized e) \<and>
      fst (destroy_texture e t) \<noteq> Inl (not_initialized e) \<and>
      fst (get_parameters e s) \<noteq> Inl (not_initialized e) \<and>
      fst (set_parameter e s n v) \<noteq> Inl (not_initialized e))"
proof -
  define e where "e = after_calls VVISFEngine_new cs"
  have init: "is_initialized_m e" and err: "last_error_m e = []"
    unfolding e_def by (rule engine_invariant)+
  have "fst (render_shader e s w h ps) \<noteq> Inl (not_initialized e)"
    using render_shader_cases [OF init, of s w h ps]
    by (auto simp add: not_initialized_def)
  then have "is_initialized e \<and> get_last_error e = [] \<and>
      fst (validate_isf e s) \<noteq> Inl (not_initialized e) \<and>
      fst (render_shader e s w h ps) \<noteq> Inl (not_initialized e) \<and>
      fst (create_texture e a d w' h' f) \<noteq> Inl (not_initialized e) \<and>
      fst (destroy_texture e t) \<noteq> Inl (not_initialized e) \<and>
      fst (get_parameters e s) \<noteq> Inl (not_initialized e) \<and>
      fst (set_parameter e s n v) \<noteq> Inl (not_initialized e)"
    using init err
    by (simp add: is_initialized_def get_last_error_def fst_validate_isf
        fst_create_texture fst_destroy_texture fst_get_parameters fst_set_parameter)
  then show ?thesis
    by (simp add: e_def [symmetric] is_initialized_def get_last_error_def
        create_engine_def new_engine_fields)
qed

theorem not_initialized_unreachable_witness:
  "is_initialized create_engine \<and> get_last_error create_engine = [] \<and>
   is_initialized (after_calls create_engine [ResetErrors, DestroyTexture ''texture_1'']) \<and>
   fst (validate_isf (after_calls create_engine [ResetErrors, DestroyTexture ''texture_1''])
          truncated_isf)
     \<noteq> Inl (not_initialized
               (after_calls create_engine [ResetErrors, DestroyTexture ''texture_1'']))"
  using not_initialized_unreachable
    [of "[ResetErrors, DestroyTexture ''texture_1'']" truncated_isf]
  by (simp add: Let_def)

end
